theory Spec2Isabelle
  imports Main "HOL-Library.Word" "HOL-Library.Multiset" "HOL-Library.AList"
begin

section \<open>Go values\<close>

text \<open>
  The scaling function is built for 64-bit platforms, where Go's \<open>int\<close> is the 64-bit
  two's complement integer: \<open>+\<close> and \<open>-\<close> wrap around and comparisons are signed
  (\<open><s\<close>, \<open>\<le>s\<close>, read through \<open>sint\<close>).

  An instant (\<open>time.Time\<close>) is an integer count of nanoseconds, and so is a
  \<open>time.Duration\<close>. \<open>Time.Sub\<close> saturates at the least and the greatest duration.
  The clock reading \<open>time.Now()\<close> of a tick is the parameter \<open>now\<close> of the functions
  that read it.
\<close>

type_synonym go_int = "64 word"
type_synonym Time = int
type_synonym Duration = int

definition minDuration :: Duration where
  "minDuration = - (2 ^ 63)"

definition maxDuration :: Duration where
  "maxDuration = 2 ^ 63 - 1"

definition time_Sub :: "Time \<Rightarrow> Time \<Rightarrow> Duration" where
  "time_Sub t u =
     (let d = t - u
      in if d < minDuration then minDuration else if maxDuration < d then maxDuration else d)"

definition time_Since :: "Time \<Rightarrow> Time \<Rightarrow> Duration" where
  "time_Since now t = time_Sub now t"

definition Minute :: Duration where
  "Minute = 60 * 1000000000"

definition Hour :: Duration where
  "Hour = 60 * Minute"

definition fits_int :: "int \<Rightarrow> bool" where
  "fits_int i = (- (2 ^ 63) \<le> i \<and> i < 2 ^ 63)"

subsection \<open>Library helpers\<close>

text \<open>
  Modelled from the spec: the packages \<open>wekactl/internal/lib/math\<close> and
  \<open>wekactl/internal/lib/strings\<close> are not among the sources. The spec writes the
  planner's formula with \<open>max\<close> and \<open>min\<close> of two integers, and the classifier's
  state test as membership of the reported state in a list of names.
\<close>

definition math_Max :: "go_int \<Rightarrow> go_int \<Rightarrow> go_int" where
  "math_Max a b = (if b <s a then a else b)"

definition math_Min :: "go_int \<Rightarrow> go_int \<Rightarrow> go_int" where
  "math_Min a b = (if a <s b then a else b)"

fun AnyOf :: "string \<Rightarrow> string list \<Rightarrow> bool" where
  "AnyOf s [] = False"
| "AnyOf s (candidate # candidates) = (if s = candidate then True else AnyOf s candidates)"

section \<open>The management plane's data (package weka)\<close>

text \<open>
  Modelled from the spec: the declarations of package \<open>weka\<close> are not among the
  sources. The records hold the fields that \<open>scale.go\<close> reads. A node's
  \<open>LastFencingTime\<close> is read through a pointer, so it is optional here; the spec's data
  model has it present for a node that is down. A node id encodes whether the node has
  the management role (\<open>IsManagement\<close>). A Go map is an association list whose order
  is the order in which a \<open>range\<close> loop visits the entries; Go leaves that order open.
\<close>

type_synonym HostId = int
type_synonym DriveId = string
type_synonym UUID = string

datatype NodeId = NodeId (nodeNum: int) (IsManagement: bool)

record HostAws =
  InstanceId :: string

record Host =
  Aws :: HostAws
  HostIp :: string
  State :: string
  Status :: string
  AddedTime :: Time
  StateChangedTime :: Time

record Drive =
  HostId :: HostId
  Status :: string
  ShouldBeActive :: bool
  Uuid :: UUID

record Node =
  HostId :: HostId
  Status :: string
  LastFencingTime :: "Time option"

record StatusResponse =
  IoStatus :: string
  Upgrade :: string

section \<open>Package protocol\<close>

record HgInstance =
  Id :: string
  PrivateIp :: string

record HostGroupInfoResponse =
  Username :: string
  Password :: string
  DesiredCapacity :: go_int
  Instances :: "HgInstance list"
  BackendIps :: "string list"
  Role :: string

record ScaleResponseHost =
  InstanceId :: string
  State :: string
  AddedTime :: Time
  HostId :: HostId

record ScaleResponse =
  Hosts :: "ScaleResponseHost list"
  ToTerminate :: "HgInstance list"
  TransientErrors :: "string list"

definition AddTransientError :: "string \<Rightarrow> string \<Rightarrow> ScaleResponse \<Rightarrow> ScaleResponse" where
  "AddTransientError err caller r =
     r\<lparr>TransientErrors := TransientErrors r @ [caller @ '':'' @ err]\<rparr>"

section \<open>Package scale: host states and host predicates\<close>

text \<open>
  \<open>hostState\<close> is an \<open>int\<close> type with the constants \<open>DEACTIVATING\<close>, \<open>UNHEALTHY\<close> and
  \<open>HEALTHY\<close> numbered 0, 1, 2 by \<open>iota\<close>; \<open>hostState_int\<close> gives the number.
\<close>

datatype hostState = DEACTIVATING | UNHEALTHY | HEALTHY

fun hostState_int :: "hostState \<Rightarrow> int" where
  "hostState_int DEACTIVATING = 0"
| "hostState_int UNHEALTHY = 1"
| "hostState_int HEALTHY = 2"

definition unhealthyDeactivateTimeout :: Duration where
  "unhealthyDeactivateTimeout = 120 * Minute"

definition backendCleanupDelay :: Duration where
  "backendCleanupDelay = 5 * Minute"

definition downKickOutTimeout :: Duration where
  "downKickOutTimeout = 3 * Hour"

record hostInfo = Host +
  hostId :: HostId
  drives :: "(DriveId \<times> Drive) list"
  nodes :: "(NodeId \<times> Node) list"
  scaleState :: hostState

text \<open>What stops a tick: an error that \<open>Handler\<close> returns, or a run-time panic.\<close>

datatype failure = Error string | NilDereference | SliceOutOfRange

fun belongsToHg_loop :: "string \<Rightarrow> HgInstance list \<Rightarrow> bool" where
  "belongsToHg_loop iid [] = False"
| "belongsToHg_loop iid (instance # rest) =
     (if iid = Id instance then True else belongsToHg_loop iid rest)"

definition belongsToHg :: "hostInfo \<Rightarrow> HgInstance list \<Rightarrow> bool" where
  "belongsToHg host instances = belongsToHg_loop (HostAws.InstanceId (Aws host)) instances"

fun belongsToHgIpBased_loop :: "string \<Rightarrow> HgInstance list \<Rightarrow> bool" where
  "belongsToHgIpBased_loop ip [] = False"
| "belongsToHgIpBased_loop ip (instance # rest) =
     (if ip = PrivateIp instance then True else belongsToHgIpBased_loop ip rest)"

definition belongsToHgIpBased :: "hostInfo \<Rightarrow> HgInstance list \<Rightarrow> bool" where
  "belongsToHgIpBased host instances = belongsToHgIpBased_loop (HostIp host) instances"

text \<open>
  The counter of \<open>numNotHealthyDrives\<close> counts entries of a map, so it neither wraps
  nor goes negative: it is a natural number.
\<close>

fun numNotHealthyDrives_loop :: "nat \<Rightarrow> (DriveId \<times> Drive) list \<Rightarrow> nat" where
  "numNotHealthyDrives_loop notActive [] = notActive"
| "numNotHealthyDrives_loop notActive ((driveId, drive) # rest) =
     numNotHealthyDrives_loop
       (if AnyOf (Drive.Status drive) [''INACTIVE''] then notActive + 1 else notActive) rest"

definition numNotHealthyDrives :: "hostInfo \<Rightarrow> nat" where
  "numNotHealthyDrives host = numNotHealthyDrives_loop 0 (drives host)"

fun allDisksBeingRemoved_loop :: "bool \<Rightarrow> (DriveId \<times> Drive) list \<Rightarrow> bool" where
  "allDisksBeingRemoved_loop ret [] = ret"
| "allDisksBeingRemoved_loop ret ((driveId, drive) # rest) =
     (if ShouldBeActive drive then False else allDisksBeingRemoved_loop True rest)"

definition allDisksBeingRemoved :: "hostInfo \<Rightarrow> bool" where
  "allDisksBeingRemoved host = allDisksBeingRemoved_loop False (drives host)"

fun anyDiskBeingRemoved_loop :: "(DriveId \<times> Drive) list \<Rightarrow> bool" where
  "anyDiskBeingRemoved_loop [] = False"
| "anyDiskBeingRemoved_loop ((driveId, drive) # rest) =
     (if \<not> ShouldBeActive drive then True else anyDiskBeingRemoved_loop rest)"

definition anyDiskBeingRemoved :: "hostInfo \<Rightarrow> bool" where
  "anyDiskBeingRemoved host = anyDiskBeingRemoved_loop (drives host)"

fun allDrivesInactive_loop :: "(DriveId \<times> Drive) list \<Rightarrow> bool" where
  "allDrivesInactive_loop [] = True"
| "allDrivesInactive_loop ((driveId, drive) # rest) =
     (if Drive.Status drive \<noteq> ''INACTIVE'' then False else allDrivesInactive_loop rest)"

definition allDrivesInactive :: "hostInfo \<Rightarrow> bool" where
  "allDrivesInactive host = allDrivesInactive_loop (drives host)"

text \<open>
  \<open>managementTimedOut\<close> dereferences \<open>LastFencingTime\<close> once the node is a management
  node that is down: a missing timestamp is a nil dereference, which stops the tick.
\<close>

fun managementTimedOut_loop ::
  "Time \<Rightarrow> Duration \<Rightarrow> (NodeId \<times> Node) list \<Rightarrow> failure + bool" where
  "managementTimedOut_loop now timeout [] = Inr False"
| "managementTimedOut_loop now timeout ((nodeId, node) # rest) =
     (if \<not> IsManagement nodeId then managementTimedOut_loop now timeout rest
      else if Node.Status node = ''DOWN'' then
        (case LastFencingTime node of
           None \<Rightarrow> Inl NilDereference
         | Some t \<Rightarrow>
             if timeout < time_Since now t then Inr True
             else managementTimedOut_loop now timeout rest)
      else managementTimedOut_loop now timeout rest)"

definition managementTimedOut :: "Time \<Rightarrow> hostInfo \<Rightarrow> Duration \<Rightarrow> failure + bool" where
  "managementTimedOut now host timeout = managementTimedOut_loop now timeout (nodes host)"

section \<open>The deactivation planner\<close>

definition calculateDeactivateTarget :: "go_int \<Rightarrow> go_int \<Rightarrow> go_int \<Rightarrow> go_int \<Rightarrow> go_int" where
  "calculateDeactivateTarget nHealthy nUnhealthy nDeactivating desired =
     (let ret = math_Max (nHealthy + nUnhealthy + nDeactivating - desired)
                  (math_Min (2 - nDeactivating) nUnhealthy);
          ret = math_Max nDeactivating ret
      in ret)"

fun getNumToDeactivate_loop ::
  "go_int \<times> go_int \<times> go_int \<Rightarrow> hostInfo list \<Rightarrow> go_int \<times> go_int \<times> go_int" where
  "getNumToDeactivate_loop counters [] = counters"
| "getNumToDeactivate_loop (nHealthy, nUnhealthy, nDeactivating) (host # rest) =
     getNumToDeactivate_loop
       (case scaleState host of
          HEALTHY \<Rightarrow> (nHealthy + 1, nUnhealthy, nDeactivating)
        | UNHEALTHY \<Rightarrow> (nHealthy, nUnhealthy + 1, nDeactivating)
        | DEACTIVATING \<Rightarrow> (nHealthy, nUnhealthy, nDeactivating + 1)) rest"

definition getNumToDeactivate :: "hostInfo list \<Rightarrow> go_int \<Rightarrow> go_int" where
  "getNumToDeactivate hostInfos desired =
     (case getNumToDeactivate_loop (0, 0, 0) hostInfos of
        (nHealthy, nUnhealthy, nDeactivating) \<Rightarrow>
          calculateDeactivateTarget nHealthy nUnhealthy nDeactivating desired)"

section \<open>The host classifier\<close>

definition isAllowedToScale :: "StatusResponse \<Rightarrow> string option" where
  "isAllowedToScale status =
     (if IoStatus status \<noteq> ''STARTED''
      then Some (''io status:'' @ IoStatus status @ '', aborting scale'')
      else if Upgrade status \<noteq> '''' then Some ''upgrade is running, aborting scale''
      else None)"

definition deriveHostState :: "Time \<Rightarrow> hostInfo \<Rightarrow> failure + hostState" where
  "deriveHostState now host =
     (if allDisksBeingRemoved host then Inr DEACTIVATING
      else if AnyOf (Host.State host) [''DEACTIVATING'', ''REMOVING'', ''INACTIVE'']
        then Inr DEACTIVATING
      else
        (case (if Host.Status host = ''DOWN''
               then managementTimedOut now host unhealthyDeactivateTimeout
               else Inr False) of
           Inl stop \<Rightarrow> Inl stop
         | Inr True \<Rightarrow> Inr UNHEALTHY
         | Inr False \<Rightarrow>
             if 0 < numNotHealthyDrives host \<or> anyDiskBeingRemoved host then Inr UNHEALTHY
             else Inr HEALTHY))"

fun calculateHostsState :: "Time \<Rightarrow> hostInfo list \<Rightarrow> failure + hostInfo list" where
  "calculateHostsState now [] = Inr []"
| "calculateHostsState now (host # rest) =
     (case deriveHostState now host of
        Inl stop \<Rightarrow> Inl stop
      | Inr st \<Rightarrow>
          (case calculateHostsState now rest of
             Inl stop \<Rightarrow> Inl stop
           | Inr rest' \<Rightarrow> Inr (host\<lparr>scaleState := st\<rparr> # rest')))"

section \<open>The removal priority\<close>

text \<open>
  \<open>Handler_less\<close> is the comparison that \<open>Handler\<close> hands to \<open>sort.Slice\<close>.

  Modelled from the spec: \<open>sort.Slice\<close> belongs to Go's library. It returns the slice
  rearranged so that no element is less than one before it. \<open>sort_Slice\<close> is the
  insertion sort Go runs on a slice of at most 12 elements: each element in turn moves
  towards the front while it is less than its left neighbour. \<open>sort_insert\<close> keeps the
  sorted prefix reversed, its last element first.
\<close>

definition Handler_less :: "hostInfo \<Rightarrow> hostInfo \<Rightarrow> bool" where
  "Handler_less a b =
     (if hostState_int (scaleState a) < hostState_int (scaleState b) then True
      else if hostState_int (scaleState b) < hostState_int (scaleState a) then False
      else if numNotHealthyDrives b < numNotHealthyDrives a then True
      else if numNotHealthyDrives a < numNotHealthyDrives b then False
      else Host.AddedTime a < Host.AddedTime b)"

fun sort_insert :: "('a \<Rightarrow> 'a \<Rightarrow> bool) \<Rightarrow> 'a \<Rightarrow> 'a list \<Rightarrow> 'a list" where
  "sort_insert lt x [] = [x]"
| "sort_insert lt x (y # ys) =
     (if lt x y then y # sort_insert lt x ys else x # y # ys)"

definition sort_Slice :: "('a \<Rightarrow> 'a \<Rightarrow> bool) \<Rightarrow> 'a list \<Rightarrow> 'a list" where
  "sort_Slice lt xs = rev (fold (sort_insert lt) xs [])"

section \<open>The connection pool and the management plane\<close>

text \<open>
  Modelled from the spec: package \<open>jrpc\<close> (the connection pool) is not among the
  sources. \<open>Pool.Call\<close> sends a named request and returns nil, or an error once every
  endpoint has failed; \<open>Pool.Drop\<close> removes an endpoint. A tick sees of the pool and
  of the cluster behind it only the outcome of each call. The record \<open>plane\<close> holds
  these outcomes: the replies to the four queries, and for a mutating request its
  outcome (\<open>None\<close> for nil, or the error's text), which may depend on everything the
  pool did before. The pool's state is the log of its events, oldest first. The
  shuffling of the endpoint addresses at the start of \<open>Handler\<close> changes the pool's
  choice of endpoint only and has no counterpart here.
\<close>

datatype request =
    JrpcStatus
  | JrpcHostList
  | JrpcDrivesList
  | JrpcNodeList
  | JrpcDeactivateDrives "UUID list"
  | JrpcDeactivateHosts "HostId list" bool
  | JrpcRemoveHost HostId bool
  | JrpcRemoveDrive "UUID list"

datatype event = Call request "string option" | Drop string

fun mutating_request :: "request \<Rightarrow> bool" where
  "mutating_request (JrpcDeactivateDrives uuids) = True"
| "mutating_request (JrpcDeactivateHosts ids skip) = True"
| "mutating_request (JrpcRemoveHost i noWait) = True"
| "mutating_request (JrpcRemoveDrive uuids) = True"
| "mutating_request rq = False"

fun mutating :: "event \<Rightarrow> bool" where
  "mutating (Call rq outcome) = mutating_request rq"
| "mutating (Drop ip) = False"

record plane =
  statusReply :: "string + StatusResponse"
  hostListReply :: "string + (HostId \<times> Host) list"
  drivesListReply :: "string + (DriveId \<times> Drive) list"
  nodeListReply :: "string + (NodeId \<times> Node) list"
  mutationReply :: "event list \<Rightarrow> request \<Rightarrow> string option"

text \<open>The state of a tick: the pool's log and the response under construction.\<close>

record tick =
  jpool :: "event list"
  response :: ScaleResponse

definition emptyTick :: tick where
  "emptyTick =
     \<lparr>jpool = [], response = \<lparr>Hosts = [], ToTerminate = [], TransientErrors = []\<rparr>\<rparr>"

definition jpool_Query :: "request \<Rightarrow> string + 'a \<Rightarrow> tick \<Rightarrow> (string + 'a) \<times> tick" where
  "jpool_Query rq reply s =
     (reply, s\<lparr>jpool := jpool s @ [Call rq (case reply of Inl err \<Rightarrow> Some err | Inr res \<Rightarrow> None)]\<rparr>)"

definition jpool_Call :: "plane \<Rightarrow> request \<Rightarrow> tick \<Rightarrow> string option \<times> tick" where
  "jpool_Call pl rq s =
     (let err = mutationReply pl (jpool s) rq
      in (err, s\<lparr>jpool := jpool s @ [Call rq err]\<rparr>))"

definition jpool_Drop :: "string \<Rightarrow> tick \<Rightarrow> tick" where
  "jpool_Drop ip s = s\<lparr>jpool := jpool s @ [Drop ip]\<rparr>"

definition addError :: "string option \<Rightarrow> string \<Rightarrow> tick \<Rightarrow> tick" where
  "addError err caller s =
     (case err of
        None \<Rightarrow> s
      | Some e \<Rightarrow> s\<lparr>response := AddTransientError e caller (response s)\<rparr>)"

section \<open>The lifecycle executor\<close>

definition removeDrive :: "plane \<Rightarrow> Drive \<Rightarrow> tick \<Rightarrow> tick" where
  "removeDrive pl drive s =
     (case jpool_Call pl (JrpcRemoveDrive [Uuid drive]) s of
        (err, s') \<Rightarrow> addError err ''removeDrive'' s')"

fun selectInstanceByIp :: "string \<Rightarrow> HgInstance list \<Rightarrow> HgInstance option" where
  "selectInstanceByIp ip [] = None"
| "selectInstanceByIp ip (i # instances) =
     (if PrivateIp i = ip then Some i else selectInstanceByIp ip instances)"

definition removeInactive_host :: "plane \<Rightarrow> HgInstance list \<Rightarrow> hostInfo \<Rightarrow> tick \<Rightarrow> tick" where
  "removeInactive_host pl instances host s =
     (case jpool_Call pl (JrpcRemoveHost (hostId host) True) (jpool_Drop (HostIp host) s) of
        (Some err, s') \<Rightarrow> addError (Some err) ''removeInactive'' s'
      | (None, s') \<Rightarrow>
          fold (\<lambda>(driveId, drive). removeDrive pl drive) (drives host)
            (case selectInstanceByIp (HostIp host) instances of
               None \<Rightarrow> s'
             | Some instance \<Rightarrow>
                 s'\<lparr>response := (response s')\<lparr>ToTerminate :=
                       ToTerminate (response s') @ [instance]\<rparr>\<rparr>))"

definition removeInactive :: "plane \<Rightarrow> hostInfo list \<Rightarrow> HgInstance list \<Rightarrow> tick \<Rightarrow> tick" where
  "removeInactive pl hosts instances s = fold (removeInactive_host pl instances) hosts s"

definition removeOldDrives :: "plane \<Rightarrow> (DriveId \<times> Drive) list \<Rightarrow> tick \<Rightarrow> tick" where
  "removeOldDrives pl driveList s =
     fold (\<lambda>(driveId, drive) s'.
             if Drive.HostId drive = - 1 \<and> Drive.Status drive = ''INACTIVE''
             then removeDrive pl drive s' else s')
       driveList s"

definition deactivateHost :: "plane \<Rightarrow> hostInfo \<Rightarrow> tick \<Rightarrow> tick" where
  "deactivateHost pl host s =
     (let s1 = fold (\<lambda>(driveId, drive) s'.
                  if ShouldBeActive drive
                  then (case jpool_Call pl (JrpcDeactivateDrives [Uuid drive]) s' of
                          (err, s'') \<Rightarrow> addError err ''deactivateDrive'' s'')
                  else s')
                (drives host) s
      in if allDrivesInactive host
         then (case jpool_Call pl (JrpcDeactivateHosts [hostId host] False)
                      (jpool_Drop (HostIp host) s1) of
                 (err, s2) \<Rightarrow> addError err ''deactivateHost'' s2)
         else s1)"

section \<open>The snapshot\<close>

text \<open>
  \<open>snapshot\<close> is the fixed sequence of queries at the start of \<open>Handler\<close> with the
  gate check after the first; \<open>assemble\<close> joins hosts, drives and nodes;
  \<open>membership\<close> is the loop that sorts the hosts into the in-scope list, the
  cleanup queue of inactive hosts, and the hosts that are down for too long.
\<close>

definition snapshot ::
  "plane \<Rightarrow> HostGroupInfoResponse \<Rightarrow> tick \<Rightarrow>
   (failure + (HostId \<times> Host) list \<times> (DriveId \<times> Drive) list \<times> (NodeId \<times> Node) list) \<times> tick" where
  "snapshot pl info s0 =
     (case jpool_Query JrpcStatus (statusReply pl) s0 of
        (Inl err, s1) \<Rightarrow> (Inl (Error err), s1)
      | (Inr systemStatus, s1) \<Rightarrow>
     (case isAllowedToScale systemStatus of
        Some err \<Rightarrow> (Inl (Error err), s1)
      | None \<Rightarrow>
     (case jpool_Query JrpcHostList (hostListReply pl) s1 of
        (Inl err, s2) \<Rightarrow> (Inl (Error err), s2)
      | (Inr hostsApiList, s2) \<Rightarrow>
     (case (if Role info = ''backend''
            then jpool_Query JrpcDrivesList (drivesListReply pl) s2
            else (Inr [], s2)) of
        (Inl err, s3) \<Rightarrow> (Inl (Error err), s3)
      | (Inr driveApiList, s3) \<Rightarrow>
     (case jpool_Query JrpcNodeList (nodeListReply pl) s3 of
        (Inl err, s4) \<Rightarrow> (Inl (Error err), s4)
      | (Inr nodeApiList, s4) \<Rightarrow> (Inr (hostsApiList, driveApiList, nodeApiList), s4))))))"

definition newHostInfo :: "HostId \<Rightarrow> Host \<Rightarrow> hostInfo" where
  "newHostInfo i host =
     \<lparr>Aws = Aws host, HostIp = HostIp host, Host.State = Host.State host,
      Host.Status = Host.Status host, Host.AddedTime = Host.AddedTime host,
      StateChangedTime = StateChangedTime host,
      hostId = i, drives = [], nodes = [], scaleState = DEACTIVATING\<rparr>"

definition attachDrive ::
  "DriveId \<times> Drive \<Rightarrow> (HostId \<times> hostInfo) list \<Rightarrow> (HostId \<times> hostInfo) list" where
  "attachDrive entry hosts =
     (case entry of (driveId, drive) \<Rightarrow>
        (case map_of hosts (Drive.HostId drive) of
           None \<Rightarrow> hosts
         | Some host \<Rightarrow>
             AList.update (Drive.HostId drive)
               (host\<lparr>drives := AList.update driveId drive (drives host)\<rparr>) hosts))"

definition attachNode ::
  "NodeId \<times> Node \<Rightarrow> (HostId \<times> hostInfo) list \<Rightarrow> (HostId \<times> hostInfo) list" where
  "attachNode entry hosts =
     (case entry of (nodeId, node) \<Rightarrow>
        (case map_of hosts (Node.HostId node) of
           None \<Rightarrow> hosts
         | Some host \<Rightarrow>
             AList.update (Node.HostId node)
               (host\<lparr>nodes := AList.update nodeId node (nodes host)\<rparr>) hosts))"

definition assemble ::
  "(HostId \<times> Host) list \<Rightarrow> (DriveId \<times> Drive) list \<Rightarrow> (NodeId \<times> Node) list \<Rightarrow>
   (HostId \<times> hostInfo) list" where
  "assemble hostsApiList driveApiList nodeApiList =
     fold attachNode nodeApiList
       (fold attachDrive driveApiList
          (fold (\<lambda>(i, host). AList.update i (newHostInfo i host)) hostsApiList []))"

definition membership_host ::
  "Time \<Rightarrow> HostGroupInfoResponse \<Rightarrow> hostInfo \<Rightarrow>
   hostInfo list \<times> hostInfo list \<times> hostInfo list \<Rightarrow>
   failure + hostInfo list \<times> hostInfo list \<times> hostInfo list" where
  "membership_host now info host queues =
     (case queues of (hostsList, inactiveHosts, downHosts) \<Rightarrow>
        (case (if Host.State host = ''INACTIVE'' then
                 (if belongsToHgIpBased host (Instances info)
                  then (hostsList, inactiveHosts @ [host])
                  else if Role info = ''backend''
                          \<and> backendCleanupDelay < time_Since now (StateChangedTime host)
                  then (hostsList, inactiveHosts @ [host])
                  else (hostsList, inactiveHosts))
               else if belongsToHg host (Instances info) then (hostsList @ [host], inactiveHosts)
               else if Host.Status host = ''DOWN'' \<and> belongsToHgIpBased host (Instances info)
               then (hostsList @ [host], inactiveHosts)
               else (hostsList, inactiveHosts)) of
           (hostsList', inactiveHosts') \<Rightarrow>
             if Host.Status host = ''DOWN'' \<and> Role info = ''backend''
                \<and> Host.State host \<noteq> ''INACTIVE''
             then (case managementTimedOut now host downKickOutTimeout of
                     Inl stop \<Rightarrow> Inl stop
                   | Inr True \<Rightarrow> Inr (hostsList', inactiveHosts', downHosts @ [host])
                   | Inr False \<Rightarrow> Inr (hostsList', inactiveHosts', downHosts))
             else Inr (hostsList', inactiveHosts', downHosts)))"

fun membership ::
  "Time \<Rightarrow> HostGroupInfoResponse \<Rightarrow> hostInfo list \<Rightarrow>
   hostInfo list \<times> hostInfo list \<times> hostInfo list \<Rightarrow>
   failure + hostInfo list \<times> hostInfo list \<times> hostInfo list" where
  "membership now info [] queues = Inr queues"
| "membership now info (host # rest) queues =
     (case membership_host now info host queues of
        Inl stop \<Rightarrow> Inl stop
      | Inr queues' \<Rightarrow> membership now info rest queues')"

section \<open>The tick\<close>

definition responseHost :: "hostInfo \<Rightarrow> ScaleResponseHost" where
  "responseHost host =
     \<lparr>ScaleResponseHost.InstanceId = HostAws.InstanceId (Aws host),
      ScaleResponseHost.State = Host.State host,
      ScaleResponseHost.AddedTime = Host.AddedTime host,
      ScaleResponseHost.HostId = hostId host\<rparr>"

definition addResponseHost :: "hostInfo \<Rightarrow> tick \<Rightarrow> tick" where
  "addResponseHost host s =
     s\<lparr>response := (response s)\<lparr>Hosts := Hosts (response s) @ [responseHost host]\<rparr>\<rparr>"

text \<open>
  \<open>lifecycle\<close> is \<open>Handler\<close> from the sort onwards. The slice expression
  \<open>hostsList[:numToDeactivate]\<close> needs a bound within the slice: a negative bound
  panics, and a bound beyond the length panics or, within the capacity that the
  allocator gave the slice, yields zero-valued hosts. The model stops both with
  \<open>SliceOutOfRange\<close>, keeping the log of what the pool did before.
\<close>

definition lifecycle ::
  "plane \<Rightarrow> HostGroupInfoResponse \<Rightarrow> (DriveId \<times> Drive) list \<Rightarrow>
   hostInfo list \<Rightarrow> hostInfo list \<Rightarrow> hostInfo list \<Rightarrow> tick \<Rightarrow> event list \<times> (failure + ScaleResponse)" where
  "lifecycle pl info driveApiList hostsList0 inactiveHosts downHosts s0 =
     (let hostsList = sort_Slice Handler_less hostsList0;
          s1 = removeInactive pl inactiveHosts (Instances info) s0;
          s2 = removeOldDrives pl driveApiList s1;
          numToDeactivate = getNumToDeactivate hostsList (DesiredCapacity info)
      in if numToDeactivate <s 0 \<or> int (length hostsList) < sint numToDeactivate
         then (jpool s2, Inl SliceOutOfRange)
         else
           (let s3 = fold (deactivateHost pl) (take (nat (sint numToDeactivate)) hostsList) s2;
                s4 = fold (deactivateHost pl) downHosts s3;
                s5 = fold addResponseHost hostsList s4
            in (jpool s5, Inr (response s5))))"

definition Handler ::
  "plane \<Rightarrow> Time \<Rightarrow> HostGroupInfoResponse \<Rightarrow> event list \<times> (failure + ScaleResponse)" where
  "Handler pl now info =
     (case snapshot pl info emptyTick of
        (Inl stop, s) \<Rightarrow> (jpool s, Inl stop)
      | (Inr (hostsApiList, driveApiList, nodeApiList), s) \<Rightarrow>
          (case membership now info
                  (map snd (assemble hostsApiList driveApiList nodeApiList)) ([], [], []) of
             Inl stop \<Rightarrow> (jpool s, Inl stop)
           | Inr (hostsList, inactiveHosts, downHosts) \<Rightarrow>
               (case calculateHostsState now hostsList of
                  Inl stop \<Rightarrow> (jpool s, Inl stop)
                | Inr hostsList' \<Rightarrow>
                    lifecycle pl info driveApiList hostsList' inactiveHosts downHosts s)))"

section \<open>Well-formed snapshots and worked inputs\<close>

text \<open>
  The spec's data model gives a node that is down its last-fencing timestamp;
  \<open>fencing_recorded\<close> says so of the management nodes in a list of nodes, the ones
  whose timestamp the code reads.
\<close>

definition fencing_recorded :: "(NodeId \<times> Node) list \<Rightarrow> bool" where
  "fencing_recorded ns =
     list_all (\<lambda>(nodeId, node).
        IsManagement nodeId \<and> Node.Status node = ''DOWN'' \<longrightarrow> LastFencingTime node \<noteq> None) ns"

definition ex_status :: StatusResponse where
  "ex_status = \<lparr>IoStatus = ''STARTED'', Upgrade = ''''\<rparr>"

definition ex_hostA :: Host where
  "ex_hostA =
     \<lparr>Aws = \<lparr>HostAws.InstanceId = ''i-a''\<rparr>, HostIp = ''10.0.0.1'',
      Host.State = ''INACTIVE'', Host.Status = ''UP'', Host.AddedTime = 1,
      StateChangedTime = 0\<rparr>"

definition ex_hostB :: Host where
  "ex_hostB =
     \<lparr>Aws = \<lparr>HostAws.InstanceId = ''i-b''\<rparr>, HostIp = ''10.0.0.2'',
      Host.State = ''INACTIVE'', Host.Status = ''UP'', Host.AddedTime = 1,
      StateChangedTime = 0\<rparr>"

definition ex_hostC :: Host where
  "ex_hostC =
     \<lparr>Aws = \<lparr>HostAws.InstanceId = ''i-c''\<rparr>, HostIp = ''10.0.0.3'',
      Host.State = ''ACTIVE'', Host.Status = ''UP'', Host.AddedTime = 1,
      StateChangedTime = 0\<rparr>"


text \<open>
  \<open>snapshot_ok\<close>: every query that \<open>Handler\<close> sends is answered and the gate is open.
\<close>

definition snapshot_ok :: "plane \<Rightarrow> HostGroupInfoResponse \<Rightarrow> bool" where
  "snapshot_ok pl info =
     ((case statusReply pl of
         Inl err \<Rightarrow> False
       | Inr status \<Rightarrow> IoStatus status = ''STARTED'' \<and> Upgrade status = '''')
      \<and> \<not> isl (hostListReply pl)
      \<and> (Role info = ''backend'' \<longrightarrow> \<not> isl (drivesListReply pl))
      \<and> \<not> isl (nodeListReply pl))"

definition ex_info :: HostGroupInfoResponse where
  "ex_info =
     \<lparr>Username = ''admin'', Password = ''secret'', DesiredCapacity = 0,
      Instances = [\<lparr>Id = ''i-a'', PrivateIp = ''10.0.0.1''\<rparr>,
                   \<lparr>Id = ''i-b'', PrivateIp = ''10.0.0.2''\<rparr>,
                   \<lparr>Id = ''i-c'', PrivateIp = ''10.0.0.3''\<rparr>],
      BackendIps = [''10.0.0.3''], Role = ''backend''\<rparr>"

definition ex_drive :: Drive where
  "ex_drive =
     \<lparr>Drive.HostId = 3, Drive.Status = ''ACTIVE'', ShouldBeActive = True, Uuid = ''d1''\<rparr>"

definition ex_orphan :: Drive where
  "ex_orphan =
     \<lparr>Drive.HostId = - 1, Drive.Status = ''INACTIVE'', ShouldBeActive = False, Uuid = ''d0''\<rparr>"

text \<open>
  \<open>ex_plane1\<close> and \<open>ex_plane2\<close> hold the same cluster: two inactive hosts and an
  active one with a drive, and an orphan drive; every deactivate-drives call fails.
  They differ in the order in which the host map is visited.
\<close>

definition ex_plane1 :: plane where
  "ex_plane1 =
     \<lparr>statusReply = Inr ex_status,
      hostListReply = Inr [(1, ex_hostA), (2, ex_hostB), (3, ex_hostC)],
      drivesListReply = Inr [(''k1'', ex_drive), (''k0'', ex_orphan)],
      nodeListReply = Inr [],
      mutationReply =
        (\<lambda>log rq. case rq of JrpcDeactivateDrives uuids \<Rightarrow> Some ''boom'' | _ \<Rightarrow> None)\<rparr>"

definition ex_plane2 :: plane where
  "ex_plane2 = ex_plane1\<lparr>hostListReply := Inr [(2, ex_hostB), (1, ex_hostA), (3, ex_hostC)]\<rparr>"

definition ex_gate_closed :: plane where
  "ex_gate_closed = ex_plane1\<lparr>statusReply := Inr \<lparr>IoStatus = ''STOPPED'', Upgrade = ''''\<rparr>\<rparr>"

definition ex_orphan_only :: plane where
  "ex_orphan_only =
     ex_plane1\<lparr>hostListReply := Inr [], drivesListReply := Inr [(''k0'', ex_orphan)]\<rparr>"

text \<open>
  The spec's formula for the planner's target, over the integers.
\<close>

definition target_formula :: "int \<Rightarrow> int \<Rightarrow> int \<Rightarrow> int \<Rightarrow> int" where
  "target_formula H U D T = max D (max (H + U + D - T) (min (2 - D) U))"


section \<open>Properties of the planner\<close>

lemma sint_math_Max: "sint (math_Max a b) = max (sint a) (sint b)"
  by (simp add: math_Max_def word_sless_alt max_def)

lemma sint_math_Min: "sint (math_Min a b) = min (sint a) (sint b)"
  by (simp add: math_Min_def word_sless_alt min_def)

lemma sint_sum_diff:
  "sint (H + U + D - T :: go_int) = signed_take_bit 63 (sint H + sint U + sint D - sint T)"
proof -
  have "H + U + D - T = (word_of_int (sint H + sint U + sint D - sint T) :: go_int)"
    by simp
  then show ?thesis
    by (simp only: sint_sbintrunc') simp
qed

lemma sint_two_minus:
  "sint (2 - D :: go_int) = signed_take_bit 63 (2 - sint D)"
proof -
  have "2 - D = (word_of_int (2 - sint D) :: go_int)"
    by simp
  then show ?thesis
    by (simp only: sint_sbintrunc') simp
qed

lemma signed_take_bit_fits: "fits_int i \<Longrightarrow> signed_take_bit 63 i = i"
  by (simp add: fits_int_def signed_take_bit_int_eq_self)

lemma sint_calculateDeactivateTarget:
  "sint (calculateDeactivateTarget H U D T) =
   max (sint D) (max (sint (H + U + D - T)) (min (sint (2 - D)) (sint U)))"
  by (simp add: calculateDeactivateTarget_def sint_math_Max sint_math_Min)

lemma go_int_bounds: "- (2 ^ 63) \<le> sint (w :: go_int)" "sint (w :: go_int) < 2 ^ 63"
  using sint_ge [of w] sint_lt [of w] by simp_all

text \<open>
  C1, as the spec states it: for all integers H, U, D and T the target equals
  \<open>max(D, max(H + U + D - T, min(2 - D, U)))\<close>. Go's \<open>int\<close> wraps around: on
  (H=0, U=1, D=0, T=-9223372036854775807) the sum \<open>H + U + D - T\<close> overflows to the
  least \<open>int\<close> and the code returns 1, where the formula gives 9223372036854775808.
\<close>

theorem calculateDeactivateTarget_formula_overflow:
  "sint (calculateDeactivateTarget 0 1 0 (- 9223372036854775807)) = 1
   \<and> target_formula (sint (0 :: go_int)) (sint (1 :: go_int)) (sint (0 :: go_int))
        (sint (- 9223372036854775807 :: go_int)) = 9223372036854775808"
  by (simp add: calculateDeactivateTarget_def math_Max_def math_Min_def word_sless_alt
      target_formula_def)

text \<open>
  C1, amended: for all ints H, U, D and T for which \<open>H + U + D - T\<close> and \<open>2 - D\<close>
  are representable as \<open>int\<close> (as they are for host counts and a desired capacity
  that is not negative), the target equals
  \<open>max(D, max(H + U + D - T, min(2 - D, U)))\<close>. It is 1 on (H=5, U=1, D=0, T=5) and
  3 on (H=3, U=3, D=1, T=4).
\<close>

theorem calculateDeactivateTarget_formula:
  "(fits_int (sint H + sint U + sint D - sint T) \<and> fits_int (2 - sint D) \<longrightarrow>
        sint (calculateDeactivateTarget H U D T) =
          target_formula (sint H) (sint U) (sint D) (sint T))
   \<and> calculateDeactivateTarget 5 1 0 5 = 1
   \<and> calculateDeactivateTarget 3 3 1 4 = 3"
proof (intro conjI impI)
  assume "fits_int (sint H + sint U + sint D - sint T) \<and> fits_int (2 - sint D)"
  then show "sint (calculateDeactivateTarget H U D T) =
          target_formula (sint H) (sint U) (sint D) (sint T)"
    by (simp add: sint_calculateDeactivateTarget sint_sum_diff sint_two_minus
        signed_take_bit_fits target_formula_def)
next
  show "calculateDeactivateTarget 5 1 0 5 = 1"
    by (simp add: calculateDeactivateTarget_def math_Max_def math_Min_def word_sless_alt)
next
  show "calculateDeactivateTarget 3 3 1 4 = 3"
    by (simp add: calculateDeactivateTarget_def math_Max_def math_Min_def word_sless_alt)
qed

theorem calculateDeactivateTarget_formula_witness:
  "fits_int (sint (3 :: go_int) + sint (3 :: go_int) + sint (1 :: go_int) - sint (4 :: go_int))
   \<and> fits_int (2 - sint (1 :: go_int))
   \<and> sint (calculateDeactivateTarget 3 3 1 4) = target_formula 3 3 1 4
   \<and> target_formula 3 3 1 4 = 3"
  using calculateDeactivateTarget_formula [of 3 3 1 4]
  by (simp add: fits_int_def target_formula_def)

text \<open>
  C4, as the spec states it: the target is at least D and never decreases when U
  grows. The second half fails where \<open>H + U + D - T\<close> leaves the range of \<open>int\<close>:
  with H = D = 0 and T = -9223372036854775807 the target is 9223372036854775807 for
  U = 0 and 1 for U = 1, because the sum wraps around to the least \<open>int\<close>.
\<close>

theorem calculateDeactivateTarget_not_monotone:
  "(0 :: go_int) \<le>s 1
   \<and> \<not> (calculateDeactivateTarget 0 0 0 (- 9223372036854775807)
          \<le>s calculateDeactivateTarget 0 1 0 (- 9223372036854775807))"
  by (simp add: calculateDeactivateTarget_def math_Max_def math_Min_def word_sless_alt
      word_sle_eq)

text \<open>
  C4, amended: for all ints H, U, D and T the target is at least D; and for
  \<open>U \<le> U'\<close> the target for U is at most the target for U', provided
  \<open>H + U + D - T\<close> and \<open>H + U' + D - T\<close> are both representable as \<open>int\<close>.
\<close>

theorem calculateDeactivateTarget_ge_and_monotone:
  "D \<le>s calculateDeactivateTarget H U D T
   \<and> (U \<le>s U' \<and> fits_int (sint H + sint U + sint D - sint T)
        \<and> fits_int (sint H + sint U' + sint D - sint T) \<longrightarrow>
      calculateDeactivateTarget H U D T \<le>s calculateDeactivateTarget H U' D T)"
proof (intro conjI impI)
  show "D \<le>s calculateDeactivateTarget H U D T"
    by (simp add: word_sle_eq sint_calculateDeactivateTarget)
next
  assume a: "U \<le>s U' \<and> fits_int (sint H + sint U + sint D - sint T)
        \<and> fits_int (sint H + sint U' + sint D - sint T)"
  then have le: "sint U \<le> sint U'"
    by (simp add: word_sle_eq)
  have s: "sint (H + U + D - T) = sint H + sint U + sint D - sint T"
    using a by (simp add: sint_sum_diff signed_take_bit_fits)
  have s': "sint (H + U' + D - T) = sint H + sint U' + sint D - sint T"
    using a by (simp add: sint_sum_diff signed_take_bit_fits)
  have "sint (calculateDeactivateTarget H U D T) \<le> sint (calculateDeactivateTarget H U' D T)"
    unfolding sint_calculateDeactivateTarget s s' using le by (simp add: max_def min_def)
  then show "calculateDeactivateTarget H U D T \<le>s calculateDeactivateTarget H U' D T"
    by (simp add: word_sle_eq)
qed

theorem calculateDeactivateTarget_ge_and_monotone_witness:
  "(1 :: go_int) \<le>s 3
   \<and> fits_int (sint (3 :: go_int) + sint (1 :: go_int) + sint (1 :: go_int) - sint (4 :: go_int))
   \<and> fits_int (sint (3 :: go_int) + sint (3 :: go_int) + sint (1 :: go_int) - sint (4 :: go_int))
   \<and> (1 :: go_int) \<le>s calculateDeactivateTarget 3 1 1 4
   \<and> calculateDeactivateTarget 3 1 1 4 \<le>s calculateDeactivateTarget 3 3 1 4"
  using calculateDeactivateTarget_ge_and_monotone
    [where H = 3 and U = 1 and U' = 3 and D = 1 and T = 4]
  by (simp add: fits_int_def word_sle_eq)

lemma getNumToDeactivate_loop_counts:
  "getNumToDeactivate_loop (h, u, d) hs =
     (h + of_nat (length (filter (\<lambda>x. scaleState x = HEALTHY) hs)),
      u + of_nat (length (filter (\<lambda>x. scaleState x = UNHEALTHY) hs)),
      d + of_nat (length (filter (\<lambda>x. scaleState x = DEACTIVATING) hs)))"
proof (induction hs arbitrary: h u d)
  case Nil
  show ?case by simp
next
  case (Cons x xs)
  show ?case
    by (cases "scaleState x") (simp_all add: Cons.IH)
qed

lemma count_states_length:
  "length (filter (\<lambda>x. scaleState x = HEALTHY) hs)
   + length (filter (\<lambda>x. scaleState x = UNHEALTHY) hs)
   + length (filter (\<lambda>x. scaleState x = DEACTIVATING) hs) = length hs"
proof (induction hs)
  case Nil
  show ?case by simp
next
  case (Cons x xs)
  then show ?case
    by (cases "scaleState x") simp_all
qed

lemma sint_of_nat_small: "n < 2 ^ 63 \<Longrightarrow> sint (of_nat n :: go_int) = int n"
proof -
  assume "n < 2 ^ 63"
  then have "int n < 2 ^ 63" by (metis of_nat_less_iff of_nat_numeral of_nat_power)
  moreover have "- (2 ^ 63) \<le> int n" by simp
  ultimately have "signed_take_bit 63 (int n) = int n"
    by (rule_tac signed_take_bit_int_eq_self)
  moreover have "sint (of_nat n :: go_int) = signed_take_bit 63 (int n)"
    by (simp add: signed_of_nat)
  ultimately show ?thesis by simp
qed

lemma target_le_sum:
  assumes "0 \<le>s H" "0 \<le>s U" "0 \<le>s D" "0 \<le>s T"
  shows "sint (calculateDeactivateTarget H U D T) \<le> sint H + sint U + sint D"
proof -
  have nn: "0 \<le> sint H" "0 \<le> sint U" "0 \<le> sint D" "0 \<le> sint T"
    using assms by (simp_all add: word_sle_eq)
  have "sint T < 2 ^ 63" using go_int_bounds(2) [of T] .
  then have "- (2 ^ 63) \<le> sint H + sint U + sint D - sint T"
    using nn by simp
  then have "signed_take_bit 63 (sint H + sint U + sint D - sint T)
      \<le> sint H + sint U + sint D - sint T"
    by (simp add: signed_take_bit_int_less_eq_self_iff)
  then have "sint (H + U + D - T) \<le> sint H + sint U + sint D"
    using nn by (simp add: sint_sum_diff)
  then show ?thesis
    using nn by (simp add: sint_calculateDeactivateTarget)
qed

lemma target_ge_D: "sint D \<le> sint (calculateDeactivateTarget H U D T)"
  by (simp add: sint_calculateDeactivateTarget)

lemma getNumToDeactivate_bounds:
  assumes "length hostsList < 2 ^ 63" "0 \<le>s desired"
  shows "0 \<le> sint (getNumToDeactivate hostsList desired)
       \<and> sint (getNumToDeactivate hostsList desired) \<le> int (length hostsList)"
proof -
  define nh where "nh = length (filter (\<lambda>x. scaleState x = HEALTHY) hostsList)"
  define nu where "nu = length (filter (\<lambda>x. scaleState x = UNHEALTHY) hostsList)"
  define nd where "nd = length (filter (\<lambda>x. scaleState x = DEACTIVATING) hostsList)"
  have total: "nh + nu + nd = length hostsList"
    unfolding nh_def nu_def nd_def by (rule count_states_length)
  have small: "nh < 2 ^ 63" "nu < 2 ^ 63" "nd < 2 ^ 63"
    using total assms(1) by simp_all
  have s: "sint (of_nat nh :: go_int) = int nh" "sint (of_nat nu :: go_int) = int nu"
    "sint (of_nat nd :: go_int) = int nd"
    using small by (simp_all add: sint_of_nat_small)
  have eq: "getNumToDeactivate hostsList desired =
      calculateDeactivateTarget (of_nat nh) (of_nat nu) (of_nat nd) desired"
    by (simp add: getNumToDeactivate_def getNumToDeactivate_loop_counts nh_def nu_def nd_def)
  have "sint (calculateDeactivateTarget (of_nat nh) (of_nat nu) (of_nat nd) desired)
      \<le> sint (of_nat nh :: go_int) + sint (of_nat nu :: go_int) + sint (of_nat nd :: go_int)"
    by (rule target_le_sum)
      (simp_all add: word_sle_eq s assms(2) [unfolded word_sle_eq, simplified])
  then have up: "sint (getNumToDeactivate hostsList desired) \<le> int (length hostsList)"
    using total by (simp add: eq s)
  have "sint (of_nat nd :: go_int) \<le> sint (getNumToDeactivate hostsList desired)"
    unfolding eq by (rule target_ge_D)
  then have "0 \<le> sint (getNumToDeactivate hostsList desired)"
    by (simp add: s)
  with up show ?thesis by simp
qed

text \<open>
  C10: for non-negative counts H, U, D and a desired capacity \<open>T \<ge> 0\<close> the target
  is at most \<open>H + U + D\<close>; for a host list (a Go slice holds fewer than \<open>2^63\<close>
  entries) and a desired capacity \<open>\<ge> 0\<close>, \<open>getNumToDeactivate\<close> lies between 0 and
  the length of the list, so \<open>hostsList[:numToDeactivate]\<close> is within bounds. The
  bound is lost for a negative desired capacity N: wherever \<open>H + U + D - N\<close> is
  representable, the target exceeds \<open>H + U + D\<close>.
\<close>

theorem getNumToDeactivate_within_bounds:
  "(0 \<le>s H \<and> 0 \<le>s U \<and> 0 \<le>s D \<and> 0 \<le>s T \<longrightarrow>
      sint (calculateDeactivateTarget H U D T) \<le> sint H + sint U + sint D)
   \<and> (length hostsList < 2 ^ 63 \<and> 0 \<le>s desired \<longrightarrow>
      0 \<le> sint (getNumToDeactivate hostsList desired)
      \<and> sint (getNumToDeactivate hostsList desired) \<le> int (length hostsList))
   \<and> (0 \<le>s H \<and> 0 \<le>s U \<and> 0 \<le>s D \<and> N <s 0
        \<and> fits_int (sint H + sint U + sint D - sint N) \<longrightarrow>
      sint H + sint U + sint D < sint (calculateDeactivateTarget H U D N))"
proof (intro conjI impI)
  assume "0 \<le>s H \<and> 0 \<le>s U \<and> 0 \<le>s D \<and> 0 \<le>s T"
  then show "sint (calculateDeactivateTarget H U D T) \<le> sint H + sint U + sint D"
    by (simp add: target_le_sum)
next
  assume a: "length hostsList < 2 ^ 63 \<and> 0 \<le>s desired"
  then show "0 \<le> sint (getNumToDeactivate hostsList desired)"
    using getNumToDeactivate_bounds [of hostsList desired] by simp
  from a show "sint (getNumToDeactivate hostsList desired) \<le> int (length hostsList)"
    using getNumToDeactivate_bounds [of hostsList desired] by simp
next
  assume a: "0 \<le>s H \<and> 0 \<le>s U \<and> 0 \<le>s D \<and> N <s 0
        \<and> fits_int (sint H + sint U + sint D - sint N)"
  then have "sint (H + U + D - N) = sint H + sint U + sint D - sint N"
    by (simp add: sint_sum_diff signed_take_bit_fits)
  moreover have "sint N < 0" using a by (simp add: word_sless_alt)
  moreover have "sint (H + U + D - N) \<le> sint (calculateDeactivateTarget H U D N)"
    by (simp add: sint_calculateDeactivateTarget)
  ultimately show "sint H + sint U + sint D < sint (calculateDeactivateTarget H U D N)"
    by simp
qed

theorem getNumToDeactivate_within_bounds_witness:
  "(0 :: go_int) \<le>s 1 \<and> (0 :: go_int) \<le>s 0 \<and> (- 1 :: go_int) <s 0
   \<and> fits_int (sint (1 :: go_int) + sint (0 :: go_int) + sint (0 :: go_int) - sint (- 1 :: go_int))
   \<and> sint (calculateDeactivateTarget 1 0 0 1) \<le> 1
   \<and> length [newHostInfo 3 ex_hostC\<lparr>scaleState := HEALTHY\<rparr>] < 2 ^ 63
   \<and> 0 \<le> sint (getNumToDeactivate [newHostInfo 3 ex_hostC\<lparr>scaleState := HEALTHY\<rparr>] 0)
   \<and> sint (getNumToDeactivate [newHostInfo 3 ex_hostC\<lparr>scaleState := HEALTHY\<rparr>] 0) \<le> 1
   \<and> 1 < sint (calculateDeactivateTarget 1 0 0 (- 1))"
  using getNumToDeactivate_within_bounds
    [where H = 1 and U = 0 and D = 0 and T = 1 and N = "- 1" and desired = 0
       and hostsList = "[newHostInfo 3 ex_hostC\<lparr>scaleState := HEALTHY\<rparr>]"]
  by (simp add: fits_int_def word_sle_eq word_sless_alt)

section \<open>Properties of the classifier\<close>

lemma AnyOf_set: "AnyOf s cs \<longleftrightarrow> s \<in> set cs"
  by (induction cs) auto





lemma allDrivesInactive_loop_iff:
  "allDrivesInactive_loop ds \<longleftrightarrow> (\<forall>(driveId, drive) \<in> set ds. Drive.Status drive = ''INACTIVE'')"
  by (induction ds rule: allDrivesInactive_loop.induct) auto












text \<open>
  C9: a host with no drives, reported state ACTIVE and status UP is classified
  healthy; the rule on drives marked for removal does not hold of it.
\<close>

theorem driveless_active_host_healthy:
  assumes "drives host = []" "Host.State host = ''ACTIVE''" "Host.Status host = ''UP''"
  shows "deriveHostState now host = Inr HEALTHY \<and> \<not> allDisksBeingRemoved host"
  using assms
  by (simp add: deriveHostState_def allDisksBeingRemoved_def AnyOf_set
      numNotHealthyDrives_def anyDiskBeingRemoved_def)

theorem driveless_active_host_healthy_witness:
  "drives (newHostInfo 3 ex_hostC) = []
   \<and> Host.State (newHostInfo 3 ex_hostC) = ''ACTIVE''
   \<and> Host.Status (newHostInfo 3 ex_hostC) = ''UP''
   \<and> deriveHostState 0 (newHostInfo 3 ex_hostC) = Inr HEALTHY
   \<and> \<not> allDisksBeingRemoved (newHostInfo 3 ex_hostC)"
  using driveless_active_host_healthy [of "newHostInfo 3 ex_hostC" 0]
  by (simp add: newHostInfo_def ex_hostC_def)


section \<open>Properties of the removal priority\<close>


lemma hostState_int_inject: "hostState_int s = hostState_int s' \<longleftrightarrow> s = s'"
  by (cases s; cases s') simp_all











section \<open>Properties of the snapshot\<close>

lemma snapshot_log:
  "\<exists>evs. jpool (snd (snapshot pl info s)) = jpool s @ evs \<and> filter mutating evs = []"
  by (simp add: snapshot_def jpool_Query_def split: sum.split option.split)

lemma snapshot_response: "response (snd (snapshot pl info s)) = response s"
  by (simp add: snapshot_def jpool_Query_def split: sum.split option.split)

lemma snapshot_Inl: "fst (snapshot pl info s) = Inl stop \<Longrightarrow> \<exists>err. stop = Error err"
  by (auto simp add: snapshot_def jpool_Query_def split: sum.splits option.splits if_splits)

lemma snapshot_ok_iff: "snapshot_ok pl info \<longleftrightarrow> \<not> isl (fst (snapshot pl info s))"
  by (simp add: snapshot_ok_def snapshot_def jpool_Query_def isAllowedToScale_def
      split: sum.split)

lemma snapshot_Inr:
  "fst (snapshot pl info s) = Inr (hs, ds, ns) \<Longrightarrow>
   hostListReply pl = Inr hs \<and> nodeListReply pl = Inr ns
   \<and> (if Role info = ''backend'' then drivesListReply pl = Inr ds else ds = [])"
  by (simp add: snapshot_def jpool_Query_def split: sum.splits option.splits if_splits)

lemma snapshot_gate_closed:
  assumes "statusReply pl = Inr status" "IoStatus status \<noteq> ''STARTED'' \<or> Upgrade status \<noteq> ''''"
  shows "\<exists>err. snapshot pl info s = (Inl (Error err), s\<lparr>jpool := jpool s @ [Call JrpcStatus None]\<rparr>)"
  using assms
  by (auto simp add: snapshot_def jpool_Query_def isAllowedToScale_def)
lemma lifecycle_Inl:
  "snd (lifecycle pl info ds hl ih dh s) = Inl stop \<Longrightarrow> stop = SliceOutOfRange"
  by (simp add: lifecycle_def Let_def split: if_splits)

lemma Handler_snapshot_Inl:
  "fst (snapshot pl info emptyTick) = Inl stop \<Longrightarrow>
   Handler pl now info = (jpool (snd (snapshot pl info emptyTick)), Inl stop)"
  by (cases "snapshot pl info emptyTick") (simp add: Handler_def)

lemma Handler_early_stop:
  assumes "snd (Handler pl now info) = Inl stop" "stop \<noteq> SliceOutOfRange"
  shows "fst (Handler pl now info) = jpool (snd (snapshot pl info emptyTick))"
proof -
  obtain r s where sn: "snapshot pl info emptyTick = (r, s)"
    by (cases "snapshot pl info emptyTick")
  show ?thesis
  proof (cases r)
    case (Inl stop')
    then show ?thesis
      using sn by (simp add: Handler_def)
  next
    case (Inr x)
    obtain hs ds ns where x: "x = (hs, ds, ns)"
      by (cases x)
    show ?thesis
    proof (cases "membership now info (map snd (assemble hs ds ns)) ([], [], [])")
      case (Inl stop')
      then show ?thesis
        using sn Inr x by (simp add: Handler_def)
    next
      case q: (Inr queues)
      obtain hl ih dh where queues: "queues = (hl, ih, dh)"
        by (cases queues)
      show ?thesis
      proof (cases "calculateHostsState now hl")
        case (Inl stop')
        then show ?thesis
          using sn Inr x q queues by (simp add: Handler_def)
      next
        case hl': (Inr hl')
        have "Handler pl now info = lifecycle pl info ds hl' ih dh s"
          using sn Inr x q queues hl' by (simp add: Handler_def)
        then have "stop = SliceOutOfRange"
          using assms(1) lifecycle_Inl by simp
        then show ?thesis
          using assms(2) by simp
      qed
    qed
  qed
qed

text \<open>
  C5: when the status query reports an IO status other than STARTED, or an upgrade,
  the tick returns an error after that one query. More generally, when a query fails
  or the gate is closed the tick returns an error; and a tick that stops before the
  lifecycle phase, with an error or with a panic of the classifier, has issued no
  mutating call (deactivate-drives, deactivate-hosts, remove-host, remove-drive).
\<close>

theorem gate_check_aborts:
  "(statusReply pl = Inr status \<and> (IoStatus status \<noteq> ''STARTED'' \<or> Upgrade status \<noteq> '''') \<longrightarrow>
      (\<exists>err. Handler pl now info = ([Call JrpcStatus None], Inl (Error err))))
   \<and> (\<not> snapshot_ok pl info \<longrightarrow>
       (\<exists>err. snd (Handler pl now info) = Inl (Error err))
       \<and> filter mutating (fst (Handler pl now info)) = [])
   \<and> (snd (Handler pl now info) = Inl stop \<and> stop \<noteq> SliceOutOfRange \<longrightarrow>
       filter mutating (fst (Handler pl now info)) = [])"
proof -
  have quiet: "filter mutating (jpool (snd (snapshot pl info emptyTick))) = []"
    using snapshot_log [of pl info emptyTick] by (auto simp add: emptyTick_def)
  have gate: "\<exists>err. Handler pl now info = ([Call JrpcStatus None], Inl (Error err))"
    if closed: "statusReply pl = Inr status \<and> (IoStatus status \<noteq> ''STARTED'' \<or> Upgrade status \<noteq> '''')"
  proof -
    obtain err where
      "snapshot pl info emptyTick =
         (Inl (Error err), emptyTick\<lparr>jpool := jpool emptyTick @ [Call JrpcStatus None]\<rparr>)"
      using snapshot_gate_closed [of pl status info emptyTick] closed by auto
    then have "Handler pl now info = ([Call JrpcStatus None], Inl (Error err))"
      by (simp add: Handler_def emptyTick_def)
    then show ?thesis ..
  qed
  have bad: "(\<exists>err. snd (Handler pl now info) = Inl (Error err))
       \<and> filter mutating (fst (Handler pl now info)) = []"
    if "\<not> snapshot_ok pl info"
  proof -
    have "isl (fst (snapshot pl info emptyTick))"
      using that snapshot_ok_iff [of pl info emptyTick] by simp
    then obtain stop' where st: "fst (snapshot pl info emptyTick) = Inl stop'"
      by (cases "fst (snapshot pl info emptyTick)") simp_all
    then obtain err where "stop' = Error err"
      using snapshot_Inl by blast
    then have "Handler pl now info = (jpool (snd (snapshot pl info emptyTick)), Inl (Error err))"
      using Handler_snapshot_Inl [OF st] by simp
    then show ?thesis
      using quiet by simp
  qed
  have early: "filter mutating (fst (Handler pl now info)) = []"
    if "snd (Handler pl now info) = Inl stop \<and> stop \<noteq> SliceOutOfRange"
    using Handler_early_stop [of pl now info stop] that quiet by simp
  from gate bad early show ?thesis
    by blast
qed

theorem gate_check_aborts_witness:
  "statusReply ex_gate_closed = Inr \<lparr>IoStatus = ''STOPPED'', Upgrade = ''''\<rparr>
   \<and> IoStatus \<lparr>IoStatus = ''STOPPED'', Upgrade = ''''\<rparr> \<noteq> ''STARTED''
   \<and> \<not> snapshot_ok ex_gate_closed ex_info
   \<and> Handler ex_gate_closed 0 ex_info =
       ([Call JrpcStatus None], Inl (Error ''io status:STOPPED, aborting scale''))
   \<and> filter mutating (fst (Handler ex_gate_closed 0 ex_info)) = []"
proof -
  have run: "Handler ex_gate_closed 0 ex_info =
       ([Call JrpcStatus None], Inl (Error ''io status:STOPPED, aborting scale''))"
    by (simp add: ex_gate_closed_def ex_plane1_def Handler_def snapshot_def
        jpool_Query_def isAllowedToScale_def emptyTick_def)
  have closed: "\<not> snapshot_ok ex_gate_closed ex_info"
    by (simp add: ex_gate_closed_def ex_plane1_def snapshot_ok_def)
  show ?thesis
    using gate_check_aborts [of ex_gate_closed "\<lparr>IoStatus = ''STOPPED'', Upgrade = ''''\<rparr>" 0
        ex_info "Error ''io status:STOPPED, aborting scale''"] run closed
    by (simp add: ex_gate_closed_def ex_plane1_def)
qed

end
